theory Spec2Isabelle
  imports Complex_Main
begin

section \<open>Balloon ascent simulation and parameter search (\<^verbatim>\<open>src/main.py\<close>)\<close>

text \<open>
  The numerical core of \<^verbatim>\<open>main.py\<close> consists of \<^verbatim>\<open>analyze_atmospheric_data\<close> (resampling of
  the atmospheric fields), \<^verbatim>\<open>simulate_balloon_ascent\<close> (a forward Euler loop) and
  \<^verbatim>\<open>optimize_balloon_parameters\<close> (a greedy search that re-runs the simulation).

  Conventions of the embedding:
  \<^item> Python floats are idealised as \<^typ>\<open>real\<close>: rounding, overflow and the finite memory of the
    trajectory list are not modelled. The literals \<^verbatim>\<open>9.8\<close>, \<^verbatim>\<open>1.225\<close>, \<^verbatim>\<open>1.2\<close>, \<^verbatim>\<open>0.1\<close> are the
    exact decimal fractions.
  \<^item> Both loops of the source are unbounded \<^verbatim>\<open>while\<close> loops. They are embedded with
    \<^theory_text>\<open>partial_function (option)\<close>: the outer \<open>option\<close> of a result is \<open>None\<close> exactly when
    the Python call never returns.
  \<^item> Every function body of the source is wrapped in \<^verbatim>\<open>try: ... except Exception: return None\<close>.
    Exceptions raised in a body are values of \<open>py_exception\<close>; the wrapper turns them into the
    inner \<open>None\<close> (Python's \<^verbatim>\<open>None\<close>, respectively the pair \<^verbatim>\<open>(None, None)\<close>).
  \<^item> The wind speed and wind direction handed to the simulator are scalars, as the
    specification describes them; temperature, humidity and pressure are sampled profiles.
  \<^item> Routines of NumPy and xarray are not part of the repository. Where a property depends on
    what such a routine returns, the routine is modelled from the specification and marked so.
\<close>

subsection \<open>Data\<close>

type_synonym trajectory = "(real \<times> real) list"
  \<comment> \<open>points \<open>(horizontal_position, height)\<close> in time order\<close>

type_synonym profile = "real list"

datatype py_exception = ZeroDivisionError | IndexError

subsection \<open>\<^verbatim>\<open>analyze_atmospheric_data\<close> (lines 46--61)\<close>









subsection \<open>\<^verbatim>\<open>simulate_balloon_ascent\<close> (lines 63--84)\<close>

text \<open>
  The \<^verbatim>\<open>while height < 20000\<close> loop of lines 74--80 with its three mutable variables
  \<open>height\<close>, \<open>horizontal_position\<close> and \<open>trajectory\<close>. The division of line 76 divides two
  Python floats, so a zero denominator raises \<^verbatim>\<open>ZeroDivisionError\<close>. \<open>dt\<close> is the constant
  \<^verbatim>\<open>0.1\<close> of line 73.
\<close>

partial_function (option) ascent_loop ::
  "real \<Rightarrow> real \<Rightarrow> real \<Rightarrow> real \<Rightarrow> real \<Rightarrow> real \<Rightarrow> real \<Rightarrow> trajectory
     \<Rightarrow> (py_exception + trajectory) option"
where
  "ascent_loop mass_cargo volume_balloon lift_force wind_speed wind_direction
      height horizontal_position trajectory =
    (if height < 20000 then
       (if mass_cargo + volume_balloon * 1.225 = 0 then Some (Inl ZeroDivisionError)
        else
          (let vertical_speed =
                 (lift_force - mass_cargo * 9.8) / (mass_cargo + volume_balloon * 1.225);
               horizontal_speed = wind_speed * cos wind_direction;
               height' = height + vertical_speed * 0.1;
               horizontal_position' = horizontal_position + horizontal_speed * 0.1
           in ascent_loop mass_cargo volume_balloon lift_force wind_speed wind_direction
                height' horizontal_position' (trajectory @ [(horizontal_position', height')])))
     else Some (Inr trajectory))"

text \<open>
  The function itself: the loop is entered with \<open>height = 0\<close>, \<open>horizontal_position = 0\<close> and
  the empty trajectory; an exception becomes the return value \<^verbatim>\<open>None\<close>. The parameters
  \<open>temperature\<close>, \<open>humidity\<close> and \<open>pressure\<close> are accepted and not used, as in the source.
\<close>

definition simulate_balloon_ascent ::
  "real \<Rightarrow> real \<Rightarrow> real \<Rightarrow> profile \<Rightarrow> profile \<Rightarrow> profile \<Rightarrow> real \<Rightarrow> real
     \<Rightarrow> trajectory option option"
where
  "simulate_balloon_ascent mass_cargo volume_balloon lift_force temperature humidity pressure
      wind_speed wind_direction =
    map_option (case_sum (\<lambda>e. None) Some)
      (ascent_loop mass_cargo volume_balloon lift_force wind_speed wind_direction 0 0 [])"

subsection \<open>\<^verbatim>\<open>optimize_balloon_parameters\<close> (lines 86--113)\<close>

text \<open>
  \<^verbatim>\<open>np.max(trajectory[:, 1])\<close>: the largest height of the trajectory. On an empty trajectory
  the column selection raises \<^verbatim>\<open>IndexError\<close>.
\<close>

definition np_max_height :: "trajectory \<Rightarrow> py_exception + real" where
  "np_max_height trajectory =
    (case map snd trajectory of
       [] \<Rightarrow> Inl IndexError
     | h # hs \<Rightarrow> Inr (fold max hs h))"

text \<open>
  Lines 95--99, repeated verbatim as lines 105--109: compute \<open>lift_force\<close> from the current
  volume, run the simulation, give up when it returned \<^verbatim>\<open>None\<close>, otherwise take the maximal
  height. The inner \<open>None\<close> stands for leaving the optimizer with \<^verbatim>\<open>(None, None)\<close>.
\<close>

definition simulated_max_height ::
  "profile \<Rightarrow> profile \<Rightarrow> profile \<Rightarrow> real \<Rightarrow> real \<Rightarrow> real \<Rightarrow> real \<Rightarrow> real option option"
where
  "simulated_max_height temperature humidity pressure wind_speed wind_direction
      mass_cargo volume_balloon =
    (let lift_force = volume_balloon * (1.225 - 1.2) * 9.8 in
     case simulate_balloon_ascent mass_cargo volume_balloon lift_force
            temperature humidity pressure wind_speed wind_direction of
       None \<Rightarrow> None
     | Some None \<Rightarrow> Some None
     | Some (Some trajectory) \<Rightarrow>
         (case np_max_height trajectory of
            Inl e \<Rightarrow> Some None
          | Inr max_height \<Rightarrow> Some (Some max_height)))"

text \<open>
  The body of the search loop, lines 101--109, on the loop state
  \<open>(mass_cargo, volume_balloon, max_height)\<close>: adjust one parameter, then re-simulate.
\<close>

definition optimize_iteration ::
  "real \<Rightarrow> profile \<Rightarrow> profile \<Rightarrow> profile \<Rightarrow> real \<Rightarrow> real \<Rightarrow> real \<times> real \<times> real
     \<Rightarrow> (real \<times> real \<times> real) option option"
where
  "optimize_iteration target_height temperature humidity pressure wind_speed wind_direction st =
    (case st of (mass_cargo, volume_balloon, max_height) \<Rightarrow>
      (let volume_balloon' =
             (if max_height < target_height then volume_balloon + 1 else volume_balloon);
           mass_cargo' =
             (if max_height < target_height then mass_cargo else mass_cargo - 0.1)
       in map_option (map_option (\<lambda>max_height'. (mass_cargo', volume_balloon', max_height')))
            (simulated_max_height temperature humidity pressure wind_speed wind_direction
               mass_cargo' volume_balloon')))"

text \<open>The loop \<^verbatim>\<open>while abs(max_height - target_height) > 100\<close> of lines 100--110.\<close>

partial_function (option) optimize_loop ::
  "real \<Rightarrow> profile \<Rightarrow> profile \<Rightarrow> profile \<Rightarrow> real \<Rightarrow> real \<Rightarrow> real \<times> real \<times> real
     \<Rightarrow> (real \<times> real) option option"
where
  "optimize_loop target_height temperature humidity pressure wind_speed wind_direction st =
    (case st of (mass_cargo, volume_balloon, max_height) \<Rightarrow>
      if \<bar>max_height - target_height\<bar> > 100 then
        (case optimize_iteration target_height temperature humidity pressure
                wind_speed wind_direction st of
           None \<Rightarrow> None
         | Some None \<Rightarrow> Some None
         | Some (Some st') \<Rightarrow>
             optimize_loop target_height temperature humidity pressure
               wind_speed wind_direction st')
      else Some (Some (mass_cargo, volume_balloon)))"

text \<open>The whole function: the seed of lines 93--94, the first simulation, then the loop.\<close>

definition optimize_balloon_parameters ::
  "real \<Rightarrow> profile \<Rightarrow> profile \<Rightarrow> profile \<Rightarrow> real \<Rightarrow> real \<Rightarrow> (real \<times> real) option option"
where
  "optimize_balloon_parameters target_height temperature humidity pressure wind_speed
      wind_direction =
    (let mass_cargo = 2; volume_balloon = 10 in
     case simulated_max_height temperature humidity pressure wind_speed wind_direction
            mass_cargo volume_balloon of
       None \<Rightarrow> None
     | Some None \<Rightarrow> Some None
     | Some (Some max_height) \<Rightarrow>
         optimize_loop target_height temperature humidity pressure wind_speed wind_direction
           (mass_cargo, volume_balloon, max_height))"


section \<open>The simulation loop in closed form\<close>

text \<open>
  As long as no division by zero occurs, the loop adds the same increments \<open>dx\<close> and \<open>dh\<close> in
  every pass. If \<open>k\<close> passes are needed to lift the height to 20000, the loop returns and has
  appended exactly \<open>k\<close> points.
\<close>

lemma ascent_loop_closed_form:
  assumes d: "mass_cargo + volume_balloon * 1.225 \<noteq> 0"
    and dh: "dh = (lift_force - mass_cargo * 9.8) / (mass_cargo + volume_balloon * 1.225) * 0.1"
    and dx: "dx = wind_speed * cos wind_direction * 0.1"
    and below: "\<forall>j<k. h + real j * dh < 20000"
    and reach: "20000 \<le> h + real k * dh"
  shows "ascent_loop mass_cargo volume_balloon lift_force wind_speed wind_direction h x tr =
    Some (Inr (tr @ map (\<lambda>i. (x + real (Suc i) * dx, h + real (Suc i) * dh)) [0..<k]))"
  using below reach
proof (induction k arbitrary: h x tr)
  case 0
  then show ?case by (simp add: ascent_loop.simps)
next
  case (Suc k)
  from Suc.prems(1) have h: "h < 20000" by force
  have b': "\<forall>j<k. (h + dh) + real j * dh < 20000"
  proof (intro allI impI)
    fix j assume "j < k"
    then have "h + real (Suc j) * dh < 20000" using Suc.prems(1) by blast
    then show "(h + dh) + real j * dh < 20000" by (simp add: algebra_simps)
  qed
  have r': "20000 \<le> (h + dh) + real k * dh"
    using Suc.prems(2) by (simp add: algebra_simps)
  have step: "ascent_loop mass_cargo volume_balloon lift_force wind_speed wind_direction h x tr =
      ascent_loop mass_cargo volume_balloon lift_force wind_speed wind_direction
        (h + dh) (x + dx) (tr @ [(x + dx, h + dh)])"
    using h d by (subst ascent_loop.simps) (simp add: dh dx Let_def)
  have shift: "map (\<lambda>i. (x + real (Suc i) * dx, h + real (Suc i) * dh)) [0..<Suc k] =
      (x + dx, h + dh) #
        map (\<lambda>i. ((x + dx) + real (Suc i) * dx, (h + dh) + real (Suc i) * dh)) [0..<k]"
    by (simp only: map_upt_Suc) (simp add: algebra_simps)
  show ?case
    unfolding step Suc.IH [OF b' r'] shift by simp
qed

text \<open>
  With a vertical speed that is not positive the height never grows, so the loop cannot
  return: fixpoint induction shows that no result is ever produced.
\<close>

lemma ascent_loop_never_returns:
  assumes "ascent_loop mass_cargo volume_balloon lift_force wind_speed wind_direction h x tr
      = Some y"
  shows "\<not> (mass_cargo + volume_balloon * 1.225 \<noteq> 0 \<and>
     (lift_force - mass_cargo * 9.8) / (mass_cargo + volume_balloon * 1.225) \<le> 0 \<and> h < 20000)"
proof (rule ascent_loop.raw_induct [where P = "\<lambda>m V L ws wd h x tr y.
     \<not> (m + V * 1.225 \<noteq> 0 \<and> (L - m * 9.8) / (m + V * 1.225) \<le> 0 \<and> h < 20000)", OF _ assms])
  fix f :: "real \<Rightarrow> real \<Rightarrow> real \<Rightarrow> real \<Rightarrow> real \<Rightarrow> real \<Rightarrow> real \<Rightarrow> trajectory
     \<Rightarrow> (py_exception + trajectory) option"
  fix m V L ws wd h x :: real and tr :: trajectory and y
  let ?vs = "(L - m * 9.8) / (m + V * 1.225)"
  assume IH: "\<And>m V L ws wd h x tr y. f m V L ws wd h x tr = Some y \<Longrightarrow>
     \<not> (m + V * 1.225 \<noteq> 0 \<and> (L - m * 9.8) / (m + V * 1.225) \<le> 0 \<and> h < 20000)"
  assume body: "(if h < 20000 then
       (if m + V * 1.225 = 0 then Some (Inl ZeroDivisionError)
        else
          (let vertical_speed = (L - m * 9.8) / (m + V * 1.225);
               horizontal_speed = ws * cos wd;
               height' = h + vertical_speed * 0.1;
               horizontal_position' = x + horizontal_speed * 0.1
           in f m V L ws wd height' horizontal_position' (tr @ [(horizontal_position', height')])))
     else Some (Inr tr)) = Some y"
  show "\<not> (m + V * 1.225 \<noteq> 0 \<and> ?vs \<le> 0 \<and> h < 20000)"
  proof
    assume a: "m + V * 1.225 \<noteq> 0 \<and> ?vs \<le> 0 \<and> h < 20000"
    from a body have rec: "f m V L ws wd (h + ?vs * 0.1) (x + ws * cos wd * 0.1)
        (tr @ [(x + ws * cos wd * 0.1, h + ?vs * 0.1)]) = Some y"
      by (simp add: Let_def)
    have "?vs \<le> 0" using a by blast
    then have "?vs * 0.1 \<le> 0" by (rule mult_nonpos_nonneg) simp
    then have "h + ?vs * 0.1 < 20000" using a by linarith
    with IH [OF rec] a show False by blast
  qed
qed

lemma ascent_loop_diverges:
  assumes "mass_cargo + volume_balloon * 1.225 \<noteq> 0"
    and "(lift_force - mass_cargo * 9.8) / (mass_cargo + volume_balloon * 1.225) \<le> 0"
    and "h < 20000"
  shows "ascent_loop mass_cargo volume_balloon lift_force wind_speed wind_direction h x tr = None"
proof (cases "ascent_loop mass_cargo volume_balloon lift_force wind_speed wind_direction h x tr")
  case None
  then show ?thesis .
next
  case (Some y)
  from ascent_loop_never_returns [OF Some] assms show ?thesis by blast
qed

lemma steps_to_ceiling:
  fixes dh :: real
  assumes "0 < dh"
  shows "(\<forall>j < nat \<lceil>20000 / dh\<rceil>. 0 + real j * dh < 20000) \<and>
    20000 \<le> 0 + real (nat \<lceil>20000 / dh\<rceil>) * dh"
proof (intro conjI allI impI)
  fix j assume j: "j < nat \<lceil>20000 / dh\<rceil>"
  then have "int j < \<lceil>20000 / dh\<rceil>" by linarith
  then have "real j < 20000 / dh" by (simp add: less_ceiling_iff)
  then show "0 + real j * dh < 20000" using assms by (simp add: pos_less_divide_eq)
next
  have "20000 / dh \<le> real_of_int \<lceil>20000 / dh\<rceil>" by (rule le_of_int_ceiling)
  also have "\<dots> \<le> real (nat \<lceil>20000 / dh\<rceil>)" by linarith
  finally have "20000 / dh \<le> real (nat \<lceil>20000 / dh\<rceil>)" .
  then have "20000 \<le> real (nat \<lceil>20000 / dh\<rceil>) * dh"
    using assms by (simp only: pos_divide_le_eq)
  then show "20000 \<le> 0 + real (nat \<lceil>20000 / dh\<rceil>) * dh" by linarith
qed

subsection \<open>The three outcomes of a simulation\<close>

lemma simulate_zero_division:
  assumes "mass_cargo + volume_balloon * 1.225 = 0"
  shows "simulate_balloon_ascent mass_cargo volume_balloon lift_force temperature humidity pressure
      wind_speed wind_direction = Some None"
proof -
  have lt: "(0::real) < 20000" by simp
  show ?thesis
    unfolding simulate_balloon_ascent_def
    by (subst ascent_loop.simps) (simp only: lt assms if_True simp_thms option.map sum.case)
qed

lemma simulate_diverges:
  assumes "mass_cargo + volume_balloon * 1.225 \<noteq> 0"
    and "(lift_force - mass_cargo * 9.8) / (mass_cargo + volume_balloon * 1.225) \<le> 0"
  shows "simulate_balloon_ascent mass_cargo volume_balloon lift_force temperature humidity pressure
      wind_speed wind_direction = None"
  unfolding simulate_balloon_ascent_def
  by (simp add: ascent_loop_diverges [OF assms])

lemma simulate_closed_form:
  assumes "mass_cargo + volume_balloon * 1.225 \<noteq> 0"
    and "dh = (lift_force - mass_cargo * 9.8) / (mass_cargo + volume_balloon * 1.225) * 0.1"
    and "dx = wind_speed * cos wind_direction * 0.1"
    and "\<forall>j<k. 0 + real j * dh < 20000"
    and "20000 \<le> 0 + real k * dh"
  shows "simulate_balloon_ascent mass_cargo volume_balloon lift_force temperature humidity pressure
      wind_speed wind_direction =
    Some (Some (map (\<lambda>i. (real (Suc i) * dx, real (Suc i) * dh)) [0..<k]))"
  unfolding simulate_balloon_ascent_def
  by (simp add: ascent_loop_closed_form [OF assms])

lemma simulate_returns_form:
  assumes ret: "simulate_balloon_ascent mass_cargo volume_balloon lift_force temperature humidity
      pressure wind_speed wind_direction = Some (Some tr)"
    and dh: "dh = (lift_force - mass_cargo * 9.8) / (mass_cargo + volume_balloon * 1.225) * 0.1"
    and dx: "dx = wind_speed * cos wind_direction * 0.1"
  shows "mass_cargo + volume_balloon * 1.225 \<noteq> 0 \<and> 0 < dh \<and>
    tr = map (\<lambda>i. (real (Suc i) * dx, real (Suc i) * dh)) [0..<nat \<lceil>20000 / dh\<rceil>]"
proof -
  have d: "mass_cargo + volume_balloon * 1.225 \<noteq> 0"
    using ret simulate_zero_division [of mass_cargo volume_balloon] by force
  have pos: "0 < dh"
  proof (rule ccontr)
    assume neg: "\<not> 0 < dh"
    define vs where "vs = (lift_force - mass_cargo * 9.8) / (mass_cargo + volume_balloon * 1.225)"
    have "dh = vs * 0.1" unfolding dh vs_def ..
    with neg have "vs \<le> 0" by simp
    then have "(lift_force - mass_cargo * 9.8) / (mass_cargo + volume_balloon * 1.225) \<le> 0"
      unfolding vs_def .
    from simulate_diverges [OF d this] ret show False by simp
  qed
  from steps_to_ceiling [OF pos]
  have "simulate_balloon_ascent mass_cargo volume_balloon lift_force temperature humidity
      pressure wind_speed wind_direction =
    Some (Some (map (\<lambda>i. (real (Suc i) * dx, real (Suc i) * dh)) [0..<nat \<lceil>20000 / dh\<rceil>]))"
    by (intro simulate_closed_form [OF d dh dx]) blast+
  with ret d pos show ?thesis by simp
qed

text \<open>
  Shape of the trajectory that the closed form describes: it is not empty, its first point is
  one step away from the launch state, the heights grow strictly, and only the last point has
  reached 20000.
\<close>

lemma closed_form_trajectory:
  fixes dh dx :: real
  assumes pos: "0 < dh"
    and tr: "tr = map (\<lambda>i. (real (Suc i) * dx, real (Suc i) * dh)) [0..<nat \<lceil>20000 / dh\<rceil>]"
  shows "tr \<noteq> [] \<and> length tr = nat \<lceil>20000 / dh\<rceil> \<and> hd tr = (dx, dh) \<and>
    sorted_wrt (<) (map snd tr) \<and> 20000 \<le> snd (last tr) \<and>
    (\<forall>p \<in> set (butlast tr). snd p < 20000)"
proof -
  define k where "k = nat \<lceil>20000 / dh\<rceil>"
  have trk: "tr = map (\<lambda>i. (real (Suc i) * dx, real (Suc i) * dh)) [0..<k]"
    unfolding k_def by (rule tr)
  from steps_to_ceiling [OF pos]
  have below: "\<And>j. j < k \<Longrightarrow> real j * dh < 20000" and reach: "20000 \<le> real k * dh"
    unfolding k_def by simp_all
  have k: "0 < k"
  proof (rule ccontr)
    assume "\<not> 0 < k"
    with reach show False by simp
  qed
  then obtain k' where k': "k = Suc k'" by (cases k) simp_all
  have ne: "tr \<noteq> []" and len: "length tr = k" using k unfolding trk by simp_all
  have hd: "hd tr = (dx, dh)" unfolding trk k' by (simp add: upt_rec)
  have heights: "map snd tr = map (\<lambda>i. real (Suc i) * dh) [0..<k]"
    unfolding trk by simp
  have srt: "sorted_wrt (<) (map snd tr)"
    unfolding heights sorted_wrt_map
    by (rule sorted_wrt_mono_rel [OF _ sorted_wrt_upt]) (use pos in simp)
  have lst: "snd (last tr) = real k * dh"
    unfolding trk k' by (simp add: last_map)
  have bl: "snd p < 20000" if "p \<in> set (butlast tr)" for p
  proof -
    from that have "p \<in> set (map (\<lambda>i. (real (Suc i) * dx, real (Suc i) * dh)) [0..<k'])"
      unfolding trk k' by (simp add: butlast_snoc)
    then obtain i where "i < k'" and "p = (real (Suc i) * dx, real (Suc i) * dh)" by auto
    with below [of "Suc i"] show ?thesis unfolding k' by simp
  qed
  from ne len hd srt lst reach bl show ?thesis unfolding k_def by simp
qed


section \<open>Properties of the simulator\<close>

text \<open>
  Claim C2. Every pass of the simulation loop (taken while \<open>height < 20000\<close>, the divisor
  not being zero) replaces the state by: height plus
  \<open>(lift_force - mass_cargo * 9.8) / (mass_cargo + volume_balloon * 1.225) * 0.1\<close>, horizontal
  position plus \<open>wind_speed * cos wind_direction * 0.1\<close>, and the trajectory extended by the
  new point \<open>(horizontal_position, height)\<close>. Accordingly every point of a returned trajectory
  is its predecessor (the launch state \<open>(0, 0)\<close> for the first point) advanced by exactly these
  increments.
\<close>

theorem simulate_state_update:
  "(height < 20000 \<and> mass_cargo + volume_balloon * 1.225 \<noteq> 0 \<longrightarrow>
      ascent_loop mass_cargo volume_balloon lift_force wind_speed wind_direction
        height horizontal_position trajectory0 =
      ascent_loop mass_cargo volume_balloon lift_force wind_speed wind_direction
        (height + (lift_force - mass_cargo * 9.8) / (mass_cargo + volume_balloon * 1.225) * 0.1)
        (horizontal_position + wind_speed * cos wind_direction * 0.1)
        (trajectory0 @
          [(horizontal_position + wind_speed * cos wind_direction * 0.1,
            height + (lift_force - mass_cargo * 9.8) / (mass_cargo + volume_balloon * 1.225) * 0.1)])) \<and>
   (simulate_balloon_ascent mass_cargo volume_balloon lift_force temperature humidity
      pressure wind_speed wind_direction = Some (Some trajectory) \<longrightarrow>
    mass_cargo + volume_balloon * 1.225 \<noteq> 0 \<and>
    (\<forall>i < length trajectory.
       trajectory ! i =
         ((if i = 0 then 0 else fst (trajectory ! (i - 1))) + wind_speed * cos wind_direction * 0.1,
          (if i = 0 then 0 else snd (trajectory ! (i - 1))) +
            (lift_force - mass_cargo * 9.8) / (mass_cargo + volume_balloon * 1.225) * 0.1)))"
proof (intro conjI impI)
  assume "height < 20000 \<and> mass_cargo + volume_balloon * 1.225 \<noteq> 0"
  then show "ascent_loop mass_cargo volume_balloon lift_force wind_speed wind_direction
        height horizontal_position trajectory0 =
      ascent_loop mass_cargo volume_balloon lift_force wind_speed wind_direction
        (height + (lift_force - mass_cargo * 9.8) / (mass_cargo + volume_balloon * 1.225) * 0.1)
        (horizontal_position + wind_speed * cos wind_direction * 0.1)
        (trajectory0 @
          [(horizontal_position + wind_speed * cos wind_direction * 0.1,
            height + (lift_force - mass_cargo * 9.8) / (mass_cargo + volume_balloon * 1.225) * 0.1)])"
    by (subst ascent_loop.simps) (simp add: Let_def)
next
  assume ret: "simulate_balloon_ascent mass_cargo volume_balloon lift_force temperature humidity
      pressure wind_speed wind_direction = Some (Some trajectory)"
  define dh where
    "dh = (lift_force - mass_cargo * 9.8) / (mass_cargo + volume_balloon * 1.225) * 0.1"
  define dx where "dx = wind_speed * cos wind_direction * 0.1"
  from simulate_returns_form [OF ret dh_def dx_def]
  have d: "mass_cargo + volume_balloon * 1.225 \<noteq> 0"
    and tr: "trajectory =
      map (\<lambda>i. (real (Suc i) * dx, real (Suc i) * dh)) [0..<nat \<lceil>20000 / dh\<rceil>]"
    by blast+
  show "mass_cargo + volume_balloon * 1.225 \<noteq> 0" by (rule d)
  have "trajectory ! i = ((if i = 0 then 0 else fst (trajectory ! (i - 1))) + dx,
          (if i = 0 then 0 else snd (trajectory ! (i - 1))) + dh)" if "i < length trajectory" for i
  proof (cases i)
    case 0
    with that show ?thesis unfolding tr by simp
  next
    case (Suc j)
    with that show ?thesis unfolding tr by (simp add: algebra_simps)
  qed
  then show "\<forall>i < length trajectory.
       trajectory ! i =
         ((if i = 0 then 0 else fst (trajectory ! (i - 1))) + wind_speed * cos wind_direction * 0.1,
          (if i = 0 then 0 else snd (trajectory ! (i - 1))) +
            (lift_force - mass_cargo * 9.8) / (mass_cargo + volume_balloon * 1.225) * 0.1)"
    unfolding dh_def dx_def by blast
qed

theorem simulate_state_update_witness:
  "ascent_loop 1 1 278134.8 2 0 0 0 [] =
     ascent_loop 1 1 278134.8 2 0 12500 0.2 [(0.2, 12500)] \<and>
   simulate_balloon_ascent 1 1 278134.8 [] [] [] 2 0 =
     Some (Some [(0.2, 12500), (0.4, 25000)]) \<and>
   [(0.2 :: real, 12500 :: real), (0.4, 25000)] ! 1 =
     (fst ([(0.2 :: real, 12500 :: real), (0.4, 25000)] ! 0) + 2 * cos 0 * 0.1,
      snd ([(0.2 :: real, 12500 :: real), (0.4, 25000)] ! 0) +
        (278134.8 - 1 * 9.8) / (1 + 1 * 1.225) * 0.1)"
proof -
  have run: "simulate_balloon_ascent 1 1 278134.8 [] [] [] 2 0 =
      Some (Some [(0.2, 12500), (0.4, 25000)])"
    unfolding simulate_balloon_ascent_def by (simp add: ascent_loop.simps)
  have guard: "(0 :: real) < 20000 \<and> (1 :: real) + 1 * 1.225 \<noteq> 0" by simp
  from simulate_state_update [of 0 1 1 "278134.8" 2 0 0 "[]"
      "[]" "[]" "[]" "[(0.2, 12500), (0.4, 25000)]"] guard run
  show ?thesis by simp
qed

text \<open>
  Claim C10. The simulator does not read \<open>temperature\<close>, \<open>humidity\<close> or \<open>pressure\<close>: two calls
  that agree on the other five arguments give the same result, whatever the three profiles.
\<close>

theorem simulate_ignores_profiles:
  "simulate_balloon_ascent mass_cargo volume_balloon lift_force temperature humidity pressure
     wind_speed wind_direction =
   simulate_balloon_ascent mass_cargo volume_balloon lift_force temperature' humidity' pressure'
     wind_speed wind_direction"
  unfolding simulate_balloon_ascent_def ..



text \<open>
  Claim C4 asks that a configuration whose lift does not exceed its weight makes the
  simulation fail instead of looping. The source has no such check. At the optimizer's own
  seed (cargo mass 2, volume 10, hence lift \<open>10 * (1.225 - 1.2) * 9.8 = 2.45\<close> against a weight
  of \<open>19.6\<close>) the simulation never returns: neither a trajectory nor \<^verbatim>\<open>None\<close>.
\<close>

theorem simulate_seed_never_returns:
  "simulate_balloon_ascent 2 10 (10 * (1.225 - 1.2) * 9.8) temperature humidity pressure
     wind_speed wind_direction = None"
proof -
  have "(2 :: real) + 10 * 1.225 \<noteq> 0" by simp
  moreover have "((10 :: real) * (1.225 - 1.2) * 9.8 - 2 * 9.8) / (2 + 10 * 1.225) \<le> 0" by simp
  ultimately show ?thesis by (rule simulate_diverges)
qed

text \<open>
  Claim C9, as stated, says that the first trajectory point is the launch point \<open>(0, 0)\<close>.
  The loop appends a point only after it has advanced the state, so the launch point is
  never recorded.
\<close>

theorem simulate_first_point_counterexample:
  "simulate_balloon_ascent 1 1 556259.8 [] [] [] 2 0 = Some (Some [(0.2, 25000)]) \<and>
   hd [(0.2 :: real, 25000 :: real)] \<noteq> (0, 0)"
  unfolding simulate_balloon_ascent_def by (simp add: ascent_loop.simps)

text \<open>
  Claim C9, amended: every returned trajectory is non-empty and in time order (its heights
  grow strictly); it starts from the launch state \<open>(0, 0)\<close>, which is not itself a point of
  the trajectory: the first point is the state after one step and lies above the ground; the
  trajectory ends with its first point of height at least 20000.
\<close>

theorem simulate_trajectory_shape:
  assumes "simulate_balloon_ascent mass_cargo volume_balloon lift_force temperature humidity
      pressure wind_speed wind_direction = Some (Some trajectory)"
  shows "trajectory \<noteq> [] \<and>
    hd trajectory =
      (0 + wind_speed * cos wind_direction * 0.1,
       0 + (lift_force - mass_cargo * 9.8) / (mass_cargo + volume_balloon * 1.225) * 0.1) \<and>
    0 < snd (hd trajectory) \<and>
    sorted_wrt (<) (map snd trajectory) \<and>
    20000 \<le> snd (last trajectory) \<and>
    (\<forall>p \<in> set (butlast trajectory). snd p < 20000)"
proof -
  define dh where
    "dh = (lift_force - mass_cargo * 9.8) / (mass_cargo + volume_balloon * 1.225) * 0.1"
  define dx where "dx = wind_speed * cos wind_direction * 0.1"
  from simulate_returns_form [OF assms dh_def dx_def]
  have pos: "0 < dh"
    and tr: "trajectory =
      map (\<lambda>i. (real (Suc i) * dx, real (Suc i) * dh)) [0..<nat \<lceil>20000 / dh\<rceil>]"
    by blast+
  from closed_form_trajectory [OF pos tr] pos
  have "trajectory \<noteq> [] \<and> hd trajectory = (0 + dx, 0 + dh) \<and> 0 < snd (hd trajectory) \<and>
    sorted_wrt (<) (map snd trajectory) \<and> 20000 \<le> snd (last trajectory) \<and>
    (\<forall>p \<in> set (butlast trajectory). snd p < 20000)"
    by simp
  then show ?thesis unfolding dh_def dx_def .
qed

theorem simulate_trajectory_shape_witness:
  "simulate_balloon_ascent 1 1 139072.3 [] [] [] 3 0 =
     Some (Some [(0.3, 6250), (0.6, 12500), (0.9, 18750), (1.2, 25000)]) \<and>
   hd [(0.3 :: real, 6250 :: real), (0.6, 12500), (0.9, 18750), (1.2, 25000)] =
     (0 + 3 * cos 0 * 0.1, 0 + (139072.3 - 1 * 9.8) / (1 + 1 * 1.225) * 0.1) \<and>
   20000 \<le> snd (last [(0.3 :: real, 6250 :: real), (0.6, 12500), (0.9, 18750), (1.2, 25000)])"
proof -
  have run: "simulate_balloon_ascent 1 1 139072.3 [] [] [] 3 0 =
     Some (Some [(0.3, 6250), (0.6, 12500), (0.9, 18750), (1.2, 25000)])"
    unfolding simulate_balloon_ascent_def by (simp add: ascent_loop.simps)
  from simulate_trajectory_shape [OF run] run show ?thesis by simp
qed

section \<open>The search loop\<close>

text \<open>The heights of a trajectory in time order have their maximum at the last point.\<close>

lemma np_max_height_sorted:
  assumes ne: "tr \<noteq> []" and srt: "sorted (map snd tr)"
  shows "np_max_height tr = Inr (snd (last tr))"
proof -
  from ne obtain h hs where hs: "map snd tr = h # hs" by (cases tr) simp_all
  have "fold max hs h = Max (set (h # hs))" by (simp only: Max.set_eq_fold)
  also have "\<dots> = last (h # hs)"
  proof (rule Max_eqI)
    show "finite (set (h # hs))" by simp
    show "last (h # hs) \<in> set (h # hs)" by (rule last_in_set) simp
    fix y assume "y \<in> set (h # hs)"
    then obtain i where i: "i < length (h # hs)" and y: "y = (h # hs) ! i"
      by (metis in_set_conv_nth)
    have "sorted (h # hs)" using srt unfolding hs .
    then have "(h # hs) ! i \<le> (h # hs) ! (length (h # hs) - 1)"
      by (rule sorted_nth_mono) (use i in simp_all)
    moreover have "last (h # hs) = (h # hs) ! (length (h # hs) - 1)"
      by (rule last_conv_nth) simp
    ultimately show "y \<le> last (h # hs)" unfolding y by (simp only:)
  qed
  also have "\<dots> = snd (last tr)" unfolding hs [symmetric] using ne by (simp add: last_map)
  finally show ?thesis unfolding np_max_height_def hs by simp
qed

text \<open>
  For an ascending configuration the maximal height is that of the last point of the closed
  form: the number of passes times the height gained in one pass.
\<close>

lemma simulated_max_height_ascending:
  assumes denom: "0 < mass_cargo + volume_balloon * 1.225"
    and lift: "volume_balloon * (1.225 - 1.2) * 9.8 > mass_cargo * 9.8"
    and dh: "dh = (volume_balloon * (1.225 - 1.2) * 9.8 - mass_cargo * 9.8) /
                   (mass_cargo + volume_balloon * 1.225) * 0.1"
  shows "simulated_max_height temperature humidity pressure wind_speed wind_direction
      mass_cargo volume_balloon = Some (Some (real (nat \<lceil>20000 / dh\<rceil>) * dh))"
proof -
  define L where "L = volume_balloon * (1.225 - 1.2) * 9.8"
  define dx where "dx = wind_speed * cos wind_direction * 0.1"
  define tr where "tr = map (\<lambda>i. (real (Suc i) * dx, real (Suc i) * dh)) [0..<nat \<lceil>20000 / dh\<rceil>]"
  have dhL: "dh = (L - mass_cargo * 9.8) / (mass_cargo + volume_balloon * 1.225) * 0.1"
    unfolding dh L_def ..
  have d: "mass_cargo + volume_balloon * 1.225 \<noteq> 0" using denom by simp
  have "0 < L - mass_cargo * 9.8" using lift unfolding L_def by simp
  then have "0 < (L - mass_cargo * 9.8) / (mass_cargo + volume_balloon * 1.225)"
    using denom by (rule divide_pos_pos)
  then have pos: "0 < dh" unfolding dhL by (rule mult_pos_pos) simp
  from steps_to_ceiling [OF pos]
  have run: "simulate_balloon_ascent mass_cargo volume_balloon L temperature humidity
      pressure wind_speed wind_direction = Some (Some tr)"
    unfolding tr_def by (intro simulate_closed_form [OF d dhL dx_def]) blast+
  from closed_form_trajectory [OF pos tr_def]
  have ne: "tr \<noteq> []" and srt: "sorted (map snd tr)"
    by (simp_all add: strict_sorted_imp_sorted)
  from closed_form_trajectory [OF pos tr_def]
  have len: "length tr = nat \<lceil>20000 / dh\<rceil>" by blast
  with ne have k: "0 < nat \<lceil>20000 / dh\<rceil>" by (metis length_greater_0_conv)
  then obtain k' where k': "nat \<lceil>20000 / dh\<rceil> = Suc k'" by (cases "nat \<lceil>20000 / dh\<rceil>") simp_all
  have lst: "snd (last tr) = real (nat \<lceil>20000 / dh\<rceil>) * dh"
    unfolding tr_def k' by (simp add: last_map)
  have "np_max_height tr = Inr (real (nat \<lceil>20000 / dh\<rceil>) * dh)"
    using np_max_height_sorted [OF ne srt] lst by simp
  with run show ?thesis
    unfolding simulated_max_height_def L_def [symmetric] by (simp add: Let_def)
qed



lemma optimize_iteration_SomeD:
  assumes "optimize_iteration target_height temperature humidity pressure wind_speed wind_direction
      (m, V, mh) = Some (Some (m', V', mh'))"
  shows "m' = (if mh < target_height then m else m - 0.1) \<and>
    V' = (if mh < target_height then V + 1 else V) \<and>
    simulated_max_height temperature humidity pressure wind_speed wind_direction m' V'
      = Some (Some mh')"
  using assms unfolding optimize_iteration_def
  by (auto simp add: Let_def split: if_splits)





text \<open>
  From the seed of lines 93--94 the very first simulation does not return (the lift of
  \<open>2.45\<close> is below the weight of \<open>19.6\<close>), and so neither does the optimizer, whatever the
  target height and the wind. The properties of the search below are therefore stated for
  the loop entered at an arbitrary state; the optimizer enters it at cargo mass 2 and volume 10.
\<close>

lemma optimize_balloon_parameters_never_returns:
  "optimize_balloon_parameters target_height temperature humidity pressure wind_speed wind_direction
     = None"
proof -
  have "(2 :: real) + 10 * 1.225 \<noteq> 0" by simp
  moreover have "((10 :: real) * (1.225 - 1.2) * 9.8 - 2 * 9.8) / (2 + 10 * 1.225) \<le> 0" by simp
  ultimately have "simulate_balloon_ascent 2 10 (10 * (1.225 - 1.2) * 9.8) temperature humidity
      pressure wind_speed wind_direction = None"
    by (rule simulate_diverges)
  then have "simulated_max_height temperature humidity pressure wind_speed wind_direction 2 10
      = None"
    unfolding simulated_max_height_def by (simp add: Let_def)
  then show ?thesis unfolding optimize_balloon_parameters_def by (simp add: Let_def)
qed

subsection \<open>Sample runs of the search\<close>

text \<open>
  Three ascending configurations, evaluated through the closed form, and the loop passes
  between them. With cargo mass \<open>1.225\<close> and volume \<open>99\<close> the vertical speed is exactly
  \<open>0.1\<close>, so the simulation takes 2000000 steps and ends at height 20000.
\<close>

lemma max_height_1225_99:
  "simulated_max_height temperature humidity pressure wind_speed wind_direction 1.225 99
     = Some (Some 20000)"
proof -
  have "simulated_max_height temperature humidity pressure wind_speed wind_direction 1.225 99
     = Some (Some (real (nat \<lceil>20000 / (0.01 :: real)\<rceil>) * 0.01))"
    by (rule simulated_max_height_ascending) simp_all
  then show ?thesis by simp
qed


lemma max_height_1225_98:
  "simulated_max_height temperature humidity pressure wind_speed wind_direction 1.225 98
     = Some (Some (99000041 / 4950))"
proof -
  have "simulated_max_height temperature humidity pressure wind_speed wind_direction 1.225 98
     = Some (Some (real (nat \<lceil>20000 / (49 / 4950 :: real)\<rceil>) * (49 / 4950)))"
    by (rule simulated_max_height_ascending) simp_all
  then show ?thesis by simp
qed

lemma iteration_raises_volume:
  "optimize_iteration 20200 temperature humidity pressure wind_speed wind_direction
     (1.225, 98, 99000041 / 4950) = Some (Some (1.225, 99, 20000))"
proof -
  have "(98 :: real) + 1 = 99" by simp
  moreover have "(99000041 / 4950 :: real) < 20200" by simp
  ultimately show ?thesis
    unfolding optimize_iteration_def
    by (simp only: prod.case Let_def if_True max_height_1225_99 option.map)
qed

lemma iteration_lowers_mass:
  "optimize_iteration 19900.001 temperature humidity pressure wind_speed wind_direction
     (1.325, 99, 306500047 / 15325) = Some (Some (1.225, 99, 20000))"
proof -
  have "(1.325 :: real) - 0.1 = 1.225" by simp
  moreover have "\<not> (306500047 / 15325 :: real) < 19900.001" by simp
  ultimately show ?thesis
    unfolding optimize_iteration_def
    by (simp only: prod.case Let_def if_False max_height_1225_99 option.map)
qed


section \<open>Properties of the optimizer\<close>



text \<open>
  Claim C5. Every pass of the search loop adjusts exactly one parameter: if
  \<open>max_height < target_height\<close> the volume grows by 1 and the cargo mass is unchanged, otherwise
  the cargo mass shrinks by \<open>0.1\<close> and the volume is unchanged.
\<close>

theorem optimize_iteration_adjusts_one:
  assumes "optimize_iteration target_height temperature humidity pressure wind_speed wind_direction
      (mass_cargo, volume_balloon, max_height) = Some (Some (mass_cargo', volume_balloon', max_height'))"
  shows "(if max_height < target_height
      then volume_balloon' = volume_balloon + 1 \<and> mass_cargo' = mass_cargo
      else mass_cargo' = mass_cargo - 0.1 \<and> volume_balloon' = volume_balloon) \<and>
    ((mass_cargo' \<noteq> mass_cargo) \<noteq> (volume_balloon' \<noteq> volume_balloon))"
  using optimize_iteration_SomeD [OF assms] by (simp split: if_splits)

theorem optimize_iteration_adjusts_one_witness:
  "optimize_iteration 20200 [] [] [] 0 0 (1.225, 98, 99000041 / 4950)
     = Some (Some (1.225, 99, 20000)) \<and>
   (99000041 / 4950 :: real) < 20200 \<and> (99 :: real) = 98 + 1 \<and>
   optimize_iteration 19900.001 [] [] [] 0 0 (1.325, 99, 306500047 / 15325)
     = Some (Some (1.225, 99, 20000)) \<and>
   \<not> (306500047 / 15325 :: real) < 19900.001 \<and> (1.225 :: real) = 1.325 - 0.1"
proof -
  note up = iteration_raises_volume [of "[]" "[]" "[]" 0 0]
  note down = iteration_lowers_mass [of "[]" "[]" "[]" 0 0]
  from optimize_iteration_adjusts_one [OF up] optimize_iteration_adjusts_one [OF down] up down
  show ?thesis by simp
qed




section \<open>The profile processing\<close>












end
